theory Spec2Isabelle
  imports Complex_Main
begin

section \<open>Data model of the graph component\<close>

text \<open>
  The embedding follows \<^verbatim>\<open>frontend/src/components/InteractiveGraph.tsx\<close>.
  JavaScript numbers are modelled as real numbers: rounding, overflow and signed zero of
  IEEE doubles are not represented.  An optional field (\<^verbatim>\<open>x?: number\<close>) is an
  \<open>option\<close>; \<open>None\<close> is \<^verbatim>\<open>undefined\<close>.  The one place where the component can
  produce a value that is not a finite number, the division in the edge renderer, uses the
  type \<open>number\<close> below.
\<close>

record Node =
  node_id :: string
  node_label :: string
  node_type :: string
  node_description :: "string option"
  node_size :: string
  node_x :: "real option"
  node_y :: "real option"
  node_vx :: "real option"
  node_vy :: "real option"

record Edge =
  edge_from :: string
  edge_to :: string
  edge_label :: "string option"
  edge_type :: string

record GraphData =
  data_nodes :: "Node list"
  data_edges :: "Edge list"

text \<open>The React state of the component (the \<^verbatim>\<open>useState\<close> cells).\<close>

record State =
  nodes :: "Node list"
  edges :: "Edge list"
  selectedNode :: "Node option"
  isDragging :: bool
  dragNode :: "Node option"

text \<open>
  JavaScript truthiness of an optional number, as tested by \<^verbatim>\<open>!node.x\<close>:
  \<^verbatim>\<open>undefined\<close> and \<^verbatim>\<open>0\<close> are falsy.  \<open>or0 v\<close> is \<^verbatim>\<open>v || 0\<close>.
\<close>

definition truthy :: "real option \<Rightarrow> bool" where
  "truthy v = (case v of None \<Rightarrow> False | Some r \<Rightarrow> r \<noteq> 0)"

definition or0 :: "real option \<Rightarrow> real" where
  "or0 v = (if truthy v then the v else 0)"

section \<open>Initialization\<close>

text \<open>
  \<^verbatim>\<open>initializedNodes\<close> of the effect.  \<open>random index\<close> is the value that
  \<^verbatim>\<open>Math.random()\<close> returns in the callback for the node at \<open>index\<close>; JavaScript
  promises a value in \<open>[0, 1)\<close>.
\<close>

definition initializedNodes :: "real \<Rightarrow> real \<Rightarrow> (nat \<Rightarrow> real) \<Rightarrow> Node list \<Rightarrow> Node list" where
  "initializedNodes width height random ns =
     (let centerX = width / 2;
          centerY = height / 2;
          radius = min width height * 0.35
      in map (\<lambda>(index, node).
                let angle = (real index / real (length ns)) * 2 * pi;
                    randomOffset = (random index - 0.5) * 40
                in node\<lparr>node_x := Some (centerX + cos angle * (radius + randomOffset)),
                        node_y := Some (centerY + sin angle * (radius + randomOffset)),
                        node_vx := Some 0,
                        node_vy := Some 0\<rparr>)
             (enumerate 0 ns))"

section \<open>The simulation tick\<close>

text \<open>
  The body of the inner loop over \<open>j\<close> for one \<open>other\<close> node; \<open>f\<close> is the pair
  \<open>(fx, fy)\<close> accumulated so far.  It is only reached for a \<open>node\<close> whose position is
  truthy.
\<close>

definition repulsion :: "Node \<Rightarrow> Node \<Rightarrow> real \<times> real \<Rightarrow> real \<times> real" where
  "repulsion node other f =
     (if \<not> truthy (node_x other) \<or> \<not> truthy (node_y other) then f
      else
        let dx = the (node_x node) - the (node_x other);
            dy = the (node_y node) - the (node_y other);
            distance = sqrt (dx * dx + dy * dy);
            minDistance = 120
        in if distance > 0 \<and> distance < minDistance
           then let force = 500 / (distance * distance)
                in (fst f + (dx / distance) * force, snd f + (dy / distance) * force)
           else f)"

text \<open>The callback of \<^verbatim>\<open>data.edges?.forEach\<close> for one edge.\<close>

definition attraction :: "Node list \<Rightarrow> Node \<Rightarrow> Edge \<Rightarrow> real \<times> real \<Rightarrow> real \<times> real" where
  "attraction newNodes node edge f =
     (let connectedNode =
            (if edge_from edge = node_id node
             then find (\<lambda>n. node_id n = edge_to edge) newNodes
             else if edge_to edge = node_id node
             then find (\<lambda>n. node_id n = edge_from edge) newNodes
             else None)
      in case connectedNode of
           None \<Rightarrow> f
         | Some c \<Rightarrow>
             if truthy (node_x c) \<and> truthy (node_y c) \<and> truthy (node_x node) \<and> truthy (node_y node)
             then
               let dx = the (node_x c) - the (node_x node);
                   dy = the (node_y c) - the (node_y node);
                   distance = sqrt (dx * dx + dy * dy)
               in if distance > 100
                  then let force = 0.1
                       in (fst f + (dx / distance) * force, snd f + (dy / distance) * force)
                  else f
             else f)"

text \<open>
  The body of the outer loop for index \<open>i\<close>.  The array \<^verbatim>\<open>newNodes\<close> is a shallow copy
  whose node objects are updated in place, so the nodes after \<open>i\<close> see the new position of
  node \<open>i\<close>: the loop passes the updated list on.
\<close>

definition simulate_node :: "real \<Rightarrow> real \<Rightarrow> Edge list \<Rightarrow> Node list \<Rightarrow> nat \<Rightarrow> Node list" where
  "simulate_node width height es newNodes i =
     (let node = newNodes ! i
      in if \<not> truthy (node_x node) \<or> \<not> truthy (node_y node) then newNodes
         else
           let centerX = width / 2;
               centerY = height / 2;
               f0 = (0, 0);
               f1 = fold (\<lambda>j f. if i = j then f else repulsion node (newNodes ! j) f)
                      [0..<length newNodes] f0;
               f2 = fold (attraction newNodes node) es f1;
               centerDx = centerX - the (node_x node);
               centerDy = centerY - the (node_y node);
               fx = fst f2 + centerDx * 0.01;
               fy = snd f2 + centerDy * 0.01;
               vx = or0 (node_vx node) * 0.8 + fx * 0.1;
               vy = or0 (node_vy node) * 0.8 + fy * 0.1;
               x1 = or0 (node_x node) + or0 (Some vx);
               y1 = or0 (node_y node) + or0 (Some vy);
               x2 = max 50 (min (width - 50) (or0 (Some x1)));
               y2 = max 50 (min (height - 50) (or0 (Some y1)))
           in newNodes[i := node\<lparr>node_x := Some x2, node_y := Some y2,
                                  node_vx := Some vx, node_vy := Some vy\<rparr>])"

text \<open>One call of \<^verbatim>\<open>simulate\<close>: the updater passed to \<^verbatim>\<open>setNodes\<close>, and the tick on the state.\<close>

definition simulate_nodes :: "real \<Rightarrow> real \<Rightarrow> Edge list \<Rightarrow> Node list \<Rightarrow> Node list" where
  "simulate_nodes width height es prevNodes =
     fold (\<lambda>i newNodes. simulate_node width height es newNodes i) [0..<length prevNodes] prevNodes"

definition simulate :: "real \<Rightarrow> real \<Rightarrow> GraphData \<Rightarrow> State \<Rightarrow> State" where
  "simulate width height data s = s\<lparr>nodes := simulate_nodes width height (data_edges data) (nodes s)\<rparr>"

section \<open>Pointer interaction\<close>

text \<open>
  The handlers read \<^verbatim>\<open>event.clientX\<close>, \<^verbatim>\<open>event.clientY\<close> and the bounding rectangle
  of the canvas; \<open>rect = None\<close> is the case \<^verbatim>\<open>svgRef.current\<close> being null.
\<close>

record MouseEvent =
  clientX :: real
  clientY :: real

record DOMRect =
  rect_left :: real
  rect_top :: real

definition handleMouseDown :: "Node \<Rightarrow> State \<Rightarrow> State" where
  "handleMouseDown node s = s\<lparr>isDragging := True, dragNode := Some node, selectedNode := Some node\<rparr>"

definition handleMouseMove :: "DOMRect option \<Rightarrow> MouseEvent \<Rightarrow> State \<Rightarrow> State" where
  "handleMouseMove rect event s =
     (case dragNode s of
        None \<Rightarrow> s
      | Some d \<Rightarrow>
          if \<not> isDragging s then s
          else case rect of
                 None \<Rightarrow> s
               | Some r \<Rightarrow>
                   let x = clientX event - rect_left r;
                       y = clientY event - rect_top r
                   in s\<lparr>nodes := map (\<lambda>node. if node_id node = node_id d
                                               then node\<lparr>node_x := Some x, node_y := Some y,
                                                         node_vx := Some 0, node_vy := Some 0\<rparr>
                                               else node) (nodes s)\<rparr>)"

definition handleMouseUp :: "State \<Rightarrow> State" where
  "handleMouseUp s = s\<lparr>isDragging := False, dragNode := None\<rparr>"

section \<open>Rendering\<close>

text \<open>
  A JavaScript number that need not be finite.  Division by zero does not raise in
  JavaScript: \<^verbatim>\<open>0 / 0\<close> is \<^verbatim>\<open>NaN\<close> and \<^verbatim>\<open>a / 0\<close> is an infinity for \<open>a \<noteq> 0\<close>; the
  arithmetic on the special values follows IEEE 754.
\<close>

datatype number = Number real | Infinity | NegInfinity | NaN

fun js_neg :: "number \<Rightarrow> number" where
  "js_neg (Number a) = Number (- a)"
| "js_neg Infinity = NegInfinity"
| "js_neg NegInfinity = Infinity"
| "js_neg NaN = NaN"

fun js_add :: "number \<Rightarrow> number \<Rightarrow> number" where
  "js_add (Number a) (Number b) = Number (a + b)"
| "js_add NaN _ = NaN"
| "js_add _ NaN = NaN"
| "js_add Infinity NegInfinity = NaN"
| "js_add NegInfinity Infinity = NaN"
| "js_add Infinity _ = Infinity"
| "js_add _ Infinity = Infinity"
| "js_add NegInfinity _ = NegInfinity"
| "js_add _ NegInfinity = NegInfinity"

definition js_sub :: "number \<Rightarrow> number \<Rightarrow> number" where
  "js_sub a b = js_add a (js_neg b)"

fun js_mul :: "number \<Rightarrow> number \<Rightarrow> number" where
  "js_mul (Number a) (Number b) = Number (a * b)"
| "js_mul NaN _ = NaN"
| "js_mul _ NaN = NaN"
| "js_mul (Number a) b = (if a = 0 then NaN else if a > 0 then b else js_neg b)"
| "js_mul a (Number b) = (if b = 0 then NaN else if b > 0 then a else js_neg a)"
| "js_mul Infinity b = b"
| "js_mul NegInfinity b = js_neg b"

text \<open>Division of two finite numbers, the only division the renderer performs.\<close>

definition js_div :: "real \<Rightarrow> real \<Rightarrow> number" where
  "js_div a b =
     (if b \<noteq> 0 then Number (a / b)
      else if a = 0 then NaN
      else if a > 0 then Infinity
      else NegInfinity)"

definition getNodeColor :: "Node \<Rightarrow> string" where
  "getNodeColor node =
     (if node_type node = ''central'' then ''#f97316''
      else if node_type node = ''key'' then ''#3b82f6''
      else if node_type node = ''support'' then ''#10b981''
      else if node_type node = ''application'' then ''#8b5cf6''
      else if node_type node = ''bridge'' then ''#f59e0b''
      else ''#6b7280'')"

definition getNodeSize :: "Node \<Rightarrow> real" where
  "getNodeSize node =
     (if node_size node = ''large'' then 35
      else if node_size node = ''medium'' then 28
      else if node_size node = ''small'' then 22
      else 25)"

text \<open>
  What the callback of \<^verbatim>\<open>edges.map\<close> returns for one edge: \<open>None\<close> is
  \<^verbatim>\<open>return null\<close> (nothing is drawn), otherwise the attributes of the line, the text of
  the label if the label group is emitted, and the three points of the arrow head.
\<close>

record RenderedEdge =
  line_x1 :: number
  line_y1 :: number
  line_x2 :: number
  line_y2 :: number
  line_strokeWidth :: nat
  line_strokeDasharray :: string
  label_text :: "string option"
  arrow_points :: "(number \<times> number) list"

definition render_edge :: "Node list \<Rightarrow> Edge \<Rightarrow> RenderedEdge option" where
  "render_edge ns edge =
     (case find (\<lambda>n. node_id n = edge_from edge) ns of
        None \<Rightarrow> None
      | Some fromNode \<Rightarrow>
          (case find (\<lambda>n. node_id n = edge_to edge) ns of
             None \<Rightarrow> None
           | Some toNode \<Rightarrow>
               if \<not> truthy (node_x fromNode) \<or> \<not> truthy (node_y fromNode) \<or>
                  \<not> truthy (node_x toNode) \<or> \<not> truthy (node_y toNode)
               then None
               else
                 let dx = the (node_x toNode) - the (node_x fromNode);
                     dy = the (node_y toNode) - the (node_y fromNode);
                     len = sqrt (dx * dx + dy * dy);
                     unitX = js_div dx len;
                     unitY = js_div dy len;
                     fromRadius = getNodeSize fromNode;
                     toRadius = getNodeSize toNode;
                     startX = js_add (Number (the (node_x fromNode))) (js_mul unitX (Number fromRadius));
                     startY = js_add (Number (the (node_y fromNode))) (js_mul unitY (Number fromRadius));
                     endX = js_sub (Number (the (node_x toNode))) (js_mul unitX (Number toRadius));
                     endY = js_sub (Number (the (node_y toNode))) (js_mul unitY (Number toRadius))
                 in Some \<lparr>line_x1 = startX, line_y1 = startY, line_x2 = endX, line_y2 = endY,
                          line_strokeWidth = (if edge_type edge = ''primary'' then 3 else 2),
                          line_strokeDasharray = (if edge_type edge = ''cross_link'' then ''5,5'' else ''none''),
                          label_text =
                            (case edge_label edge of
                               None \<Rightarrow> None
                             | Some l \<Rightarrow>
                                 if l \<noteq> [] \<and> len > 80
                                 then Some (if length l > 8 then take 6 l @ ''...'' else l)
                                 else None),
                          arrow_points =
                            [(endX, endY),
                             (js_add (js_sub endX (js_mul (Number 8) unitX)) (js_mul (Number 3) unitY),
                              js_sub (js_sub endY (js_mul (Number 8) unitY)) (js_mul (Number 3) unitX)),
                             (js_sub (js_sub endX (js_mul (Number 8) unitX)) (js_mul (Number 3) unitY),
                              js_add (js_sub endY (js_mul (Number 8) unitY)) (js_mul (Number 3) unitX))]\<rparr>))"

text \<open>
  What the callback of \<^verbatim>\<open>nodes.map\<close> returns for one node: \<open>None\<close> is
  \<^verbatim>\<open>return null\<close>, otherwise the circle and the label below it.
\<close>

record RenderedNode =
  circle_cx :: real
  circle_cy :: real
  circle_r :: real
  circle_fill :: string
  circle_strokeWidth :: nat
  node_label_text :: string

definition render_node :: "Node option \<Rightarrow> Node \<Rightarrow> RenderedNode option" where
  "render_node sel node =
     (if \<not> truthy (node_x node) \<or> \<not> truthy (node_y node) then None
      else
        let radius = getNodeSize node;
            color = getNodeColor node;
            isSelected = (case sel of None \<Rightarrow> False | Some sn \<Rightarrow> node_id sn = node_id node)
        in Some \<lparr>circle_cx = the (node_x node), circle_cy = the (node_y node),
                 circle_r = radius + (if isSelected then 4 else 0),
                 circle_fill = color,
                 circle_strokeWidth = (if isSelected then 3 else 2),
                 node_label_text =
                   (if length (node_label node) > 15 then take 13 (node_label node) @ ''...''
                    else node_label node)\<rparr>)"

text \<open>The scene: one entry per edge and one per node, in order.\<close>

definition render :: "State \<Rightarrow> RenderedEdge option list \<times> RenderedNode option list" where
  "render s = (map (render_edge (nodes s)) (edges s), map (render_node (selectedNode s)) (nodes s))"

section \<open>Vocabulary of the specification\<close>

text \<open>
  A node takes part in the layout when both coordinates are truthy; \<open>position\<close> is only
  meaningful for such a node.
\<close>

definition present :: "Node \<Rightarrow> bool" where
  "present n = (truthy (node_x n) \<and> truthy (node_y n))"

definition position :: "Node \<Rightarrow> real \<times> real" where
  "position n = (the (node_x n), the (node_y n))"

definition distance :: "real \<times> real \<Rightarrow> real \<times> real \<Rightarrow> real" where
  "distance p q = sqrt ((fst q - fst p) * (fst q - fst p) + (snd q - snd p) * (snd q - snd p))"

text \<open>The unit vector pointing from \<open>p\<close> to \<open>q\<close> (for \<open>p \<noteq> q\<close>).\<close>

definition direction :: "real \<times> real \<Rightarrow> real \<times> real \<Rightarrow> real \<times> real" where
  "direction p q = ((fst q - fst p) / distance p q, (snd q - snd p) / distance p q)"

definition vadd :: "real \<times> real \<Rightarrow> real \<times> real \<Rightarrow> real \<times> real" where
  "vadd u v = (fst u + fst v, snd u + snd v)"

definition vscale :: "real \<Rightarrow> real \<times> real \<Rightarrow> real \<times> real" where
  "vscale c v = (c * fst v, c * snd v)"

definition vsum :: "(real \<times> real) list \<Rightarrow> real \<times> real" where
  "vsum vs = (sum_list (map fst vs), sum_list (map snd vs))"

text \<open>
  The three force terms in the words of the specification.  Repulsion: magnitude
  \<open>500 / d\<^sup>2\<close>, directed away from the other node, for \<open>0 < d < 120\<close>.
\<close>

definition spec_repulsion :: "Node \<Rightarrow> Node \<Rightarrow> real \<times> real" where
  "spec_repulsion node other =
     (if present other \<and> 0 < distance (position node) (position other)
         \<and> distance (position node) (position other) < 120
      then vscale (500 / (distance (position node) (position other))\<^sup>2)
             (direction (position other) (position node))
      else (0, 0))"

text \<open>
  Attraction: an edge touches the node when one of its ends carries the node's identifier;
  the connected node is the node found for the identifier at the other end.  Magnitude
  \<open>0.1\<close>, directed toward the connected node, for \<open>d > 100\<close>.
\<close>

definition connected_id :: "Node \<Rightarrow> Edge \<Rightarrow> string" where
  "connected_id node e = (if edge_from e = node_id node then edge_to e else edge_from e)"

definition spec_attraction :: "Node list \<Rightarrow> Node \<Rightarrow> Edge \<Rightarrow> real \<times> real" where
  "spec_attraction ns node e =
     (if edge_from e = node_id node \<or> edge_to e = node_id node
      then (case find (\<lambda>n. node_id n = connected_id node e) ns of
              None \<Rightarrow> (0, 0)
            | Some c \<Rightarrow>
                if present c \<and> distance (position node) (position c) > 100
                then vscale 0.1 (direction (position node) (position c))
                else (0, 0))
      else (0, 0))"

text \<open>Centering: \<open>0.01\<close> times the vector from the node to the centre of the viewport.\<close>

definition spec_centering :: "real \<Rightarrow> real \<Rightarrow> Node \<Rightarrow> real \<times> real" where
  "spec_centering width height node =
     vscale 0.01 (width / 2 - fst (position node), height / 2 - snd (position node))"

text \<open>The net force on the node at index \<open>i\<close> of \<open>ns\<close>: the sum of the three terms.\<close>

definition spec_net_force :: "real \<Rightarrow> real \<Rightarrow> Edge list \<Rightarrow> Node list \<Rightarrow> nat \<Rightarrow> real \<times> real" where
  "spec_net_force width height es ns i =
     vadd (vadd (vsum (map (\<lambda>j. spec_repulsion (ns ! i) (ns ! j)) (filter (\<lambda>j. j \<noteq> i) [0..<length ns])))
                (vsum (map (spec_attraction ns (ns ! i)) es)))
          (spec_centering width height (ns ! i))"

text \<open>The node list when the outer loop of the tick has completed the indices below \<open>n\<close>.\<close>

definition simulate_upto :: "real \<Rightarrow> real \<Rightarrow> Edge list \<Rightarrow> Node list \<Rightarrow> nat \<Rightarrow> Node list" where
  "simulate_upto width height es ns n =
     fold (\<lambda>i newNodes. simulate_node width height es newNodes i) [0..<n] ns"

text \<open>The clamped bounds of the tick and the bounds of the viewport.\<close>

definition in_bounds :: "real \<Rightarrow> real \<Rightarrow> Node \<Rightarrow> bool" where
  "in_bounds width height n =
     (case node_x n of
        None \<Rightarrow> False
      | Some px \<Rightarrow>
          (case node_y n of
             None \<Rightarrow> False
           | Some py \<Rightarrow> 50 \<le> px \<and> px \<le> width - 50 \<and> 50 \<le> py \<and> py \<le> height - 50))"

definition in_viewport :: "real \<Rightarrow> real \<Rightarrow> Node \<Rightarrow> bool" where
  "in_viewport width height n =
     (case node_x n of
        None \<Rightarrow> False
      | Some px \<Rightarrow>
          (case node_y n of
             None \<Rightarrow> False
           | Some py \<Rightarrow> 0 \<le> px \<and> px \<le> width \<and> 0 \<le> py \<and> py \<le> height))"

text \<open>Erasing the position of every node whose position is not truthy.\<close>

definition forget :: "Node \<Rightarrow> Node" where
  "forget n = (if present n then n else n\<lparr>node_x := None, node_y := None\<rparr>)"

text \<open>Builders for the concrete graphs used as examples below.\<close>

definition example_node :: "string \<Rightarrow> real \<Rightarrow> real \<Rightarrow> Node" where
  "example_node name px py =
     \<lparr>node_id = name, node_label = name, node_type = ''key'', node_description = None,
      node_size = ''medium'', node_x = Some px, node_y = Some py,
      node_vx = Some 0, node_vy = Some 0\<rparr>"

definition example_edge :: "string \<Rightarrow> string \<Rightarrow> Edge" where
  "example_edge a b =
     \<lparr>edge_from = a, edge_to = b, edge_label = Some ''relates to'', edge_type = ''primary''\<rparr>"

definition example_state :: "Node list \<Rightarrow> Edge list \<Rightarrow> State" where
  "example_state ns es =
     \<lparr>nodes = ns, edges = es, selectedNode = None, isDragging = False, dragNode = None\<rparr>"

definition example_data :: "Node list \<Rightarrow> Edge list \<Rightarrow> GraphData" where
  "example_data ns es = \<lparr>data_nodes = ns, data_edges = es\<rparr>"

text \<open>A source of random numbers that returns the same value at every call.\<close>

definition constant_random :: "real \<Rightarrow> nat \<Rightarrow> real" where
  "constant_random r index = r"

section \<open>Basic facts\<close>

lemma truthy_simps [simp]: "truthy None = False" "truthy (Some r) = (r \<noteq> 0)"
  by (simp_all add: truthy_def)

lemma or0_simps [simp]: "or0 None = 0" "or0 (Some r) = r"
  by (simp_all add: or0_def)

lemma sqrt_of_square: "0 \<le> r \<Longrightarrow> a = r * r \<Longrightarrow> sqrt a = r"
  by (simp add: real_sqrt_mult_self)

lemma sqrt_2500: "sqrt 2500 = 50"
  by (rule sqrt_of_square) simp_all

lemma sqrt_22500: "sqrt 22500 = 150"
  by (rule sqrt_of_square) simp_all

lemma distance_commute: "distance p q = distance q p"
  by (simp add: distance_def algebra_simps)

subsection \<open>The outer loop touches one node per step\<close>

lemma length_simulate_node [simp]: "length (simulate_node w h es ns i) = length ns"
  by (simp add: simulate_node_def Let_def)

lemma simulate_node_nth_other: "k \<noteq> i \<Longrightarrow> simulate_node w h es ns i ! k = ns ! k"
  by (simp add: simulate_node_def Let_def)

lemma simulate_upto_0 [simp]: "simulate_upto w h es ns 0 = ns"
  by (simp add: simulate_upto_def)

lemma simulate_upto_Suc [simp]:
  "simulate_upto w h es ns (Suc n) = simulate_node w h es (simulate_upto w h es ns n) n"
  by (simp add: simulate_upto_def)

lemma length_simulate_upto [simp]: "length (simulate_upto w h es ns n) = length ns"
  by (induction n) simp_all

lemma simulate_upto_nth_ge: "n \<le> k \<Longrightarrow> simulate_upto w h es ns n ! k = ns ! k"
  by (induction n) (simp_all add: simulate_node_nth_other)

lemma simulate_upto_nth_lt:
  "k < n \<Longrightarrow> simulate_upto w h es ns n ! k = simulate_node w h es (simulate_upto w h es ns k) k ! k"
proof (induction n)
  case 0
  then show ?case by simp
next
  case (Suc n)
  show ?case
  proof (cases "k = n")
    case True
    then show ?thesis by simp
  next
    case False
    with Suc.prems have "k < n" by simp
    with Suc.IH False show ?thesis by (simp add: simulate_node_nth_other)
  qed
qed

lemma simulate_nodes_upto: "simulate_nodes w h es ns = simulate_upto w h es ns (length ns)"
  by (simp add: simulate_nodes_def simulate_upto_def)

lemma simulate_upto_take_drop:
  assumes "i \<le> length ns"
  shows "simulate_upto w h es ns i = take i (simulate_nodes w h es ns) @ drop i ns"
proof (rule nth_equalityI)
  show "length (simulate_upto w h es ns i) = length (take i (simulate_nodes w h es ns) @ drop i ns)"
    using assms by (simp add: simulate_nodes_upto)
next
  fix k assume k: "k < length (simulate_upto w h es ns i)"
  show "simulate_upto w h es ns i ! k = (take i (simulate_nodes w h es ns) @ drop i ns) ! k"
  proof (cases "k < i")
    case True
    then have "k < length ns" using assms by simp
    with True show ?thesis
      by (simp add: nth_append simulate_nodes_upto simulate_upto_nth_lt)
  next
    case False
    then show ?thesis using assms k
      by (simp add: nth_append simulate_nodes_upto simulate_upto_nth_ge)
  qed
qed

subsection \<open>The loops of the tick add up the terms of the specification\<close>

lemma repulsion_accumulates: "repulsion node other f = vadd f (spec_repulsion node other)"
proof -
  have d: "distance (position node) (position other) = distance (position other) (position node)"
    by (rule distance_commute)
  show ?thesis
    unfolding repulsion_def spec_repulsion_def d
    by (simp add: Let_def present_def vadd_def vscale_def direction_def distance_def
        position_def power2_eq_square)
qed

lemma attraction_accumulates:
  "present node \<Longrightarrow> attraction ns node e f = vadd f (spec_attraction ns node e)"
  by (auto simp add: attraction_def spec_attraction_def connected_id_def Let_def present_def
      vadd_def vscale_def direction_def distance_def position_def split: option.splits)

lemma fold_vadd:
  "(\<And>a f. a \<in> set xs \<Longrightarrow> g a f = vadd f (t a)) \<Longrightarrow> fold g xs f = vadd f (vsum (map t xs))"
proof (induction xs arbitrary: f)
  case Nil
  then show ?case by (simp add: vadd_def vsum_def)
next
  case (Cons a xs)
  have "fold g (a # xs) f = fold g xs (vadd f (t a))"
    using Cons.prems by simp
  also have "\<dots> = vadd (vadd f (t a)) (vsum (map t xs))"
    using Cons by simp
  finally show ?case by (simp add: vadd_def vsum_def)
qed

lemma fold_skip_self:
  "fold (\<lambda>j f. if i = j then f else g j f) xs f0 = fold g (filter (\<lambda>j. j \<noteq> i) xs) f0"
  by (induction xs arbitrary: f0) auto

lemma simulate_node_present:
  assumes "present (ns ! i)"
  shows "simulate_node w h es ns i =
     (let node = ns ! i;
          F = spec_net_force w h es ns i;
          vx = 0.8 * or0 (node_vx node) + 0.1 * fst F;
          vy = 0.8 * or0 (node_vy node) + 0.1 * snd F
      in ns[i := node\<lparr>node_x := Some (max 50 (min (w - 50) (fst (position node) + vx))),
                       node_y := Some (max 50 (min (h - 50) (snd (position node) + vy))),
                       node_vx := Some vx, node_vy := Some vy\<rparr>])"
proof -
  let ?node = "ns ! i"
  have f1: "fold (\<lambda>j f. if i = j then f else repulsion ?node (ns ! j) f) [0..<length ns] (0, 0)
      = vsum (map (\<lambda>j. spec_repulsion ?node (ns ! j)) (filter (\<lambda>j. j \<noteq> i) [0..<length ns]))"
    by (simp add: fold_skip_self fold_vadd [where t = "\<lambda>j. spec_repulsion ?node (ns ! j)"]
        repulsion_accumulates vadd_def)
  have f2: "fold (attraction ns ?node) es f = vadd f (vsum (map (spec_attraction ns ?node) es))" for f
    by (rule fold_vadd) (simp add: attraction_accumulates assms)
  from assms obtain px py where p: "node_x ?node = Some px" "node_y ?node = Some py" "px \<noteq> 0" "py \<noteq> 0"
    by (auto simp add: present_def truthy_def split: option.splits)
  show ?thesis
    unfolding simulate_node_def Let_def f1 f2
    using p by (simp add: spec_net_force_def spec_centering_def vadd_def vscale_def position_def
        algebra_simps)
qed

text \<open>
  The node at index \<open>i\<close> after the whole tick: the loop reaches it with the nodes before
  it already moved (\<open>simulate_upto\<close>), and no later step touches it.
\<close>

lemma simulate_nodes_nth_present:
  assumes "i < length ns" and "present (ns ! i)"
  shows "simulate_nodes w h es ns ! i =
     (let node = ns ! i;
          F = spec_net_force w h es (simulate_upto w h es ns i) i;
          vx = 0.8 * or0 (node_vx node) + 0.1 * fst F;
          vy = 0.8 * or0 (node_vy node) + 0.1 * snd F
      in node\<lparr>node_x := Some (max 50 (min (w - 50) (fst (position node) + vx))),
               node_y := Some (max 50 (min (h - 50) (snd (position node) + vy))),
               node_vx := Some vx, node_vy := Some vy\<rparr>)"
proof -
  let ?st = "simulate_upto w h es ns i"
  have same: "?st ! i = ns ! i"
    by (simp add: simulate_upto_nth_ge)
  then have pres: "present (?st ! i)"
    using assms(2) by simp
  have "simulate_nodes w h es ns ! i = simulate_node w h es ?st i ! i"
    using assms(1) by (simp add: simulate_nodes_upto simulate_upto_nth_lt)
  then show ?thesis
    using assms(1) same by (simp add: simulate_node_present [OF pres] Let_def)
qed

section \<open>Properties of the simulation tick\<close>

text \<open>
  Claim C1.  In every tick, a node with a truthy position is moved by the net force that is
  the sum of the three terms of the specification: the repulsion \<open>500 / d\<^sup>2\<close> away from
  every other node at distance \<open>0 < d < 120\<close>, the attraction \<open>0.1\<close> toward the connected
  node of every touching edge at distance \<open>d > 100\<close>, and the centering \<open>0.01\<close> times the
  vector to the centre of the viewport.  Its velocity becomes \<open>0.8 v + 0.1 F\<close> and its
  position \<open>p + v'\<close>, then clamped.  The nodes are updated in place in index order, so the
  distances are taken in the list \<open>reached\<close>: the nodes before index \<open>i\<close> at their new
  positions, the nodes from \<open>i\<close> on at their old ones.
\<close>

theorem simulate_force_integration:
  assumes "i < length (nodes s)" and "present (nodes s ! i)"
  shows "nodes (simulate width height data s) ! i =
     (let node = nodes s ! i;
          reached = take i (nodes (simulate width height data s)) @ drop i (nodes s);
          F = spec_net_force width height (data_edges data) reached i;
          vx = 0.8 * or0 (node_vx node) + 0.1 * fst F;
          vy = 0.8 * or0 (node_vy node) + 0.1 * snd F
      in node\<lparr>node_x := Some (max 50 (min (width - 50) (fst (position node) + vx))),
               node_y := Some (max 50 (min (height - 50) (snd (position node) + vy))),
               node_vx := Some vx, node_vy := Some vy\<rparr>)"
proof -
  let ?es = "data_edges data" and ?ns = "nodes s"
  have st: "simulate_upto width height ?es ?ns i
      = take i (simulate_nodes width height ?es ?ns) @ drop i ?ns"
    using assms(1) by (simp add: simulate_upto_take_drop)
  show ?thesis
    using simulate_nodes_nth_present [OF assms, of width height ?es]
    by (simp add: simulate_def Let_def st)
qed

theorem simulate_force_integration_witness:
  "0 < length (nodes (example_state [example_node ''a'' 100 300, example_node ''b'' 150 300,
                                       example_node ''c'' 250 300] [example_edge ''a'' ''c'']))
   \<and> present (nodes (example_state [example_node ''a'' 100 300, example_node ''b'' 150 300,
                                       example_node ''c'' 250 300] [example_edge ''a'' ''c'']) ! 0)
   \<and> nodes (simulate 800 600
              (example_data [example_node ''a'' 100 300, example_node ''b'' 150 300,
                             example_node ''c'' 250 300] [example_edge ''a'' ''c''])
              (example_state [example_node ''a'' 100 300, example_node ''b'' 150 300,
                              example_node ''c'' 250 300] [example_edge ''a'' ''c''])) ! 0
       = (example_node ''a'' 100 300)\<lparr>node_x := Some 100.29, node_vx := Some 0.29\<rparr>"
proof -
  let ?ns = "[example_node ''a'' 100 300, example_node ''b'' 150 300, example_node ''c'' 250 300]"
  let ?s = "example_state ?ns [example_edge ''a'' ''c'']"
  have len: "0 < length (nodes ?s)"
    by (simp add: example_state_def)
  have pres: "present (nodes ?s ! 0)"
    by (simp add: example_state_def example_node_def present_def)
  show ?thesis
    using len pres
      simulate_force_integration [OF len pres, of 800 600 "example_data ?ns [example_edge ''a'' ''c'']"]
    by (simp add: example_state_def example_node_def example_edge_def example_data_def
        spec_net_force_def spec_repulsion_def spec_attraction_def spec_centering_def
        connected_id_def present_def position_def distance_def direction_def vadd_def
        vscale_def vsum_def sqrt_2500 sqrt_22500 Let_def)
qed

text \<open>
  Claim C2 (as amended).  The tick clamps each coordinate of a node it processes with
  \<open>max 50 (min (width - 50) x)\<close>.  When the viewport is at least 100 wide and 100 high,
  every processed node therefore ends the tick inside
  \<open>[50, width - 50] \<times> [50, height - 50]\<close>.
\<close>

theorem simulate_keeps_in_bounds:
  assumes "100 \<le> width" and "100 \<le> height"
    and "i < length (nodes s)" and "present (nodes s ! i)"
  shows "in_bounds width height (nodes (simulate width height data s) ! i)"
  using assms(1,2) simulate_nodes_nth_present [OF assms(3,4), of width height "data_edges data"]
  by (simp add: simulate_def in_bounds_def Let_def)

theorem simulate_keeps_in_bounds_witness:
  "(100::real) \<le> 800 \<and> (100::real) \<le> 600
   \<and> 0 < length (nodes (example_state [example_node ''a'' 100 300] []))
   \<and> present (nodes (example_state [example_node ''a'' 100 300] []) ! 0)
   \<and> in_bounds 800 600
       (nodes (simulate 800 600 (example_data [example_node ''a'' 100 300] [])
                 (example_state [example_node ''a'' 100 300] [])) ! 0)"
proof -
  let ?s = "example_state [example_node ''a'' 100 300] []"
  have w: "(100::real) \<le> 800" and h: "(100::real) \<le> 600"
    by simp_all
  have len: "0 < length (nodes ?s)"
    by (simp add: example_state_def)
  have pres: "present (nodes ?s ! 0)"
    by (simp add: example_state_def example_node_def present_def)
  show ?thesis
    using w h len pres simulate_keeps_in_bounds [OF w h len pres] by simp
qed

text \<open>
  Without the condition on the viewport the claim fails: for a width below 100 the interval
  \<open>[50, width - 50]\<close> is empty, and the outer \<open>max\<close> puts the node at 50.  Here the
  width is 60 and the processed node ends at \<open>x = 50 > 10\<close>.
\<close>

theorem simulate_narrow_viewport_counterexample:
  "0 < length (nodes (example_state [example_node ''a'' 50 300] []))
   \<and> present (nodes (example_state [example_node ''a'' 50 300] []) ! 0)
   \<and> node_x (nodes (simulate 60 600 (example_data [example_node ''a'' 50 300] [])
                      (example_state [example_node ''a'' 50 300] [])) ! 0) = Some 50
   \<and> \<not> in_bounds 60 600
         (nodes (simulate 60 600 (example_data [example_node ''a'' 50 300] [])
                   (example_state [example_node ''a'' 50 300] [])) ! 0)"
  by (simp add: simulate_def simulate_nodes_def simulate_node_def repulsion_def in_bounds_def
      example_state_def example_node_def example_data_def present_def Let_def)

section \<open>Properties of the pointer interaction\<close>

text \<open>
  Claim C3 (as amended).  While a drag is in progress, a pointer-move event sets the
  position of the dragged node (every node that carries its identifier) exactly to the
  pointer coordinates relative to the canvas, sets its velocity to zero and leaves every
  other node as it is.  The tick does not read the drag state: during a drag it computes
  the same node list as after the release, so every node with a truthy position, the
  dragged one included, is simulated in the same tick.
\<close>

theorem drag_move_sets_pointer_position:
  assumes "isDragging s" and "dragNode s = Some d"
  shows "length (nodes (handleMouseMove (Some r) ev s)) = length (nodes s)
     \<and> (\<forall>k < length (nodes s).
           nodes (handleMouseMove (Some r) ev s) ! k =
             (if node_id (nodes s ! k) = node_id d
              then (nodes s ! k)\<lparr>node_x := Some (clientX ev - rect_left r),
                                  node_y := Some (clientY ev - rect_top r),
                                  node_vx := Some 0, node_vy := Some 0\<rparr>
              else nodes s ! k))
     \<and> nodes (simulate width height data s) = nodes (simulate width height data (handleMouseUp s))"
  using assms by (simp add: handleMouseMove_def handleMouseUp_def simulate_def Let_def)

theorem drag_move_sets_pointer_position_witness:
  "isDragging (handleMouseDown (example_node ''a'' 100 300)
                 (example_state [example_node ''a'' 100 300, example_node ''b'' 150 300] []))
   \<and> dragNode (handleMouseDown (example_node ''a'' 100 300)
                 (example_state [example_node ''a'' 100 300, example_node ''b'' 150 300] []))
       = Some (example_node ''a'' 100 300)
   \<and> nodes (handleMouseMove (Some \<lparr>rect_left = 10, rect_top = 20\<rparr>) \<lparr>clientX = 210, clientY = 320\<rparr>
              (handleMouseDown (example_node ''a'' 100 300)
                 (example_state [example_node ''a'' 100 300, example_node ''b'' 150 300] [])))
       = [example_node ''a'' 200 300, example_node ''b'' 150 300]"
proof -
  let ?s = "handleMouseDown (example_node ''a'' 100 300)
              (example_state [example_node ''a'' 100 300, example_node ''b'' 150 300] [])"
  have drag: "isDragging ?s"
    by (simp add: handleMouseDown_def)
  have node: "dragNode ?s = Some (example_node ''a'' 100 300)"
    by (simp add: handleMouseDown_def)
  have len: "length (nodes ?s) = 2"
    by (simp add: handleMouseDown_def example_state_def)
  have all2: "(\<forall>k<2. P k) = (P 0 \<and> P (Suc 0))" for P :: "nat \<Rightarrow> bool"
    by (auto simp add: less_Suc_eq numeral_2_eq_2)
  from drag_move_sets_pointer_position [OF drag node,
      of "\<lparr>rect_left = 10, rect_top = 20\<rparr>" "\<lparr>clientX = 210, clientY = 320\<rparr>"]
  have "nodes (handleMouseMove (Some \<lparr>rect_left = 10, rect_top = 20\<rparr>)
                 \<lparr>clientX = 210, clientY = 320\<rparr> ?s)
          = [example_node ''a'' 200 300, example_node ''b'' 150 300]"
    unfolding len
    by (intro nth_equalityI)
      (auto simp add: all2 less_Suc_eq numeral_2_eq_2 handleMouseDown_def example_state_def example_node_def)
  with drag node show ?thesis by simp
qed

text \<open>
  The claim as stated, that the dragged node takes no part in the force integration, fails.
  A node is pressed and the pointer moves to \<open>(200, 300)\<close>; the drag is still in
  progress when the next tick runs, and the tick moves the dragged node to
  \<open>(200.2, 300)\<close> by the centering force.
\<close>

theorem drag_simulated_counterexample:
  "isDragging (handleMouseMove (Some \<lparr>rect_left = 0, rect_top = 0\<rparr>) \<lparr>clientX = 200, clientY = 300\<rparr>
                 (handleMouseDown (example_node ''a'' 100 300)
                    (example_state [example_node ''a'' 100 300] [])))
   \<and> map position
        (nodes (handleMouseMove (Some \<lparr>rect_left = 0, rect_top = 0\<rparr>) \<lparr>clientX = 200, clientY = 300\<rparr>
                 (handleMouseDown (example_node ''a'' 100 300)
                    (example_state [example_node ''a'' 100 300] []))))
       = [(200, 300)]
   \<and> map position
        (nodes (simulate 800 600 (example_data [example_node ''a'' 100 300] [])
           (handleMouseMove (Some \<lparr>rect_left = 0, rect_top = 0\<rparr>) \<lparr>clientX = 200, clientY = 300\<rparr>
              (handleMouseDown (example_node ''a'' 100 300)
                 (example_state [example_node ''a'' 100 300] [])))))
       = [(200.2, 300)]"
  by (simp add: simulate_def simulate_nodes_def simulate_node_def handleMouseMove_def
      handleMouseDown_def example_state_def example_node_def example_data_def position_def Let_def)

text \<open>
  Claim C4 (as amended).  Pointer-up changes no node: it only clears the drag state, so the
  dragged node keeps the velocity it had just before the release.  That velocity is zero
  when the last event that touched the node was a pointer-move of the drag, which sets the
  velocity of the dragged node to \<open>(0, 0)\<close>.
\<close>

theorem release_keeps_velocity:
  assumes "isDragging s" and "dragNode s = Some d"
  shows "nodes (handleMouseUp s) = nodes s
     \<and> (\<forall>n \<in> set (nodes (handleMouseUp (handleMouseMove (Some r) ev s))).
           node_id n = node_id d \<longrightarrow> node_vx n = Some 0 \<and> node_vy n = Some 0)"
  using assms by (auto simp add: handleMouseMove_def handleMouseUp_def Let_def)

theorem release_keeps_velocity_witness:
  "isDragging (handleMouseDown (example_node ''a'' 100 300)
                 (example_state [(example_node ''a'' 100 300)\<lparr>node_vx := Some 3\<rparr>,
                                 example_node ''b'' 150 300] []))
   \<and> dragNode (handleMouseDown (example_node ''a'' 100 300)
                 (example_state [(example_node ''a'' 100 300)\<lparr>node_vx := Some 3\<rparr>,
                                 example_node ''b'' 150 300] []))
       = Some (example_node ''a'' 100 300)
   \<and> nodes (handleMouseUp (handleMouseDown (example_node ''a'' 100 300)
                 (example_state [(example_node ''a'' 100 300)\<lparr>node_vx := Some 3\<rparr>,
                                 example_node ''b'' 150 300] [])))
       = [(example_node ''a'' 100 300)\<lparr>node_vx := Some 3\<rparr>, example_node ''b'' 150 300]
   \<and> nodes (handleMouseUp
         (handleMouseMove (Some \<lparr>rect_left = 10, rect_top = 20\<rparr>) \<lparr>clientX = 210, clientY = 320\<rparr>
            (handleMouseDown (example_node ''a'' 100 300)
               (example_state [(example_node ''a'' 100 300)\<lparr>node_vx := Some 3\<rparr>,
                               example_node ''b'' 150 300] []))))
       = [example_node ''a'' 200 300, example_node ''b'' 150 300]"
proof -
  let ?s = "handleMouseDown (example_node ''a'' 100 300)
              (example_state [(example_node ''a'' 100 300)\<lparr>node_vx := Some 3\<rparr>,
                              example_node ''b'' 150 300] [])"
  have drag: "isDragging ?s"
    by (simp add: handleMouseDown_def)
  have node: "dragNode ?s = Some (example_node ''a'' 100 300)"
    by (simp add: handleMouseDown_def)
  have ns: "nodes ?s = [(example_node ''a'' 100 300)\<lparr>node_vx := Some 3\<rparr>, example_node ''b'' 150 300]"
    by (simp add: handleMouseDown_def example_state_def)
  have moved: "nodes (handleMouseUp
         (handleMouseMove (Some \<lparr>rect_left = 10, rect_top = 20\<rparr>) \<lparr>clientX = 210, clientY = 320\<rparr> ?s))
       = [example_node ''a'' 200 300, example_node ''b'' 150 300]"
    by (simp add: handleMouseUp_def handleMouseMove_def handleMouseDown_def example_state_def
        example_node_def)
  from release_keeps_velocity [OF drag node] drag node ns moved show ?thesis by simp
qed

text \<open>
  The claim as stated, that the velocity is zero at every release, fails.  A node is
  pressed, a tick runs before the pointer moves, and the pointer is released: the node
  leaves the drag with the velocity \<open>0.3\<close> that the tick gave it.
\<close>

theorem release_velocity_counterexample:
  "isDragging (simulate 800 600 (example_data [example_node ''a'' 100 300] [])
                 (handleMouseDown (example_node ''a'' 100 300)
                    (example_state [example_node ''a'' 100 300] [])))
   \<and> map node_vx
        (nodes (handleMouseUp
           (simulate 800 600 (example_data [example_node ''a'' 100 300] [])
              (handleMouseDown (example_node ''a'' 100 300)
                 (example_state [example_node ''a'' 100 300] [])))))
       = [Some 0.3]"
  by (simp add: simulate_def simulate_nodes_def simulate_node_def handleMouseUp_def
      handleMouseDown_def example_state_def example_node_def example_data_def Let_def)

section \<open>Properties of the initialization\<close>

lemma length_initializedNodes [simp]: "length (initializedNodes w h random ns) = length ns"
  by (simp add: initializedNodes_def Let_def)

lemma initializedNodes_nth:
  "i < length ns \<Longrightarrow> initializedNodes w h random ns ! i =
     (ns ! i)\<lparr>node_x := Some (w / 2 + cos (real i / real (length ns) * 2 * pi) * (min w h * 0.35 + (random i - 0.5) * 40)),
              node_y := Some (h / 2 + sin (real i / real (length ns) * 2 * pi) * (min w h * 0.35 + (random i - 0.5) * 40)),
              node_vx := Some 0, node_vy := Some 0\<rparr>"
  by (simp add: initializedNodes_def Let_def nth_enumerate_eq)

lemma sqrt_scaled_unit: "sqrt ((a * cos t) * (a * cos t) + (a * sin t) * (a * sin t)) = \<bar>a\<bar>"
proof -
  have u: "cos t * cos t + sin t * sin t = 1"
    using sin_cos_squared_add2 [of t] by (simp add: power2_eq_square)
  have "(a * cos t) * (a * cos t) + (a * sin t) * (a * sin t) = (a * a) * (cos t * cos t + sin t * sin t)"
    by (simp only: distrib_left mult.assoc mult.left_commute)
  also have "\<dots> = a * a"
    by (simp only: u mult_1_right)
  finally show ?thesis by simp
qed

lemma sqrt_100: "sqrt 100 = 10"
  by (rule sqrt_of_square) simp_all

text \<open>
  Claim C6.  Initialization places node \<open>i\<close> of \<open>N\<close> at the angle \<open>2 \<pi> i / N\<close>
  around the centre of the viewport, on the circle of radius \<open>0.35 min(width, height)\<close>
  moved along the radius by a jitter in \<open>[-20, 20)\<close>, so at most 20 px away from its
  place on the circle, and sets its velocity to \<open>(0, 0)\<close>.  The value of
  \<^verbatim>\<open>Math.random()\<close> is assumed to lie in \<open>[0, 1)\<close>.
\<close>

theorem initializedNodes_on_circle:
  assumes "i < length ns" and "0 \<le> random i" and "random i < 1"
  shows "(let n' = initializedNodes width height random ns ! i;
              angle = 2 * pi * real i / real (length ns);
              radius = 0.35 * min width height;
              jitter = 40 * random i - 20
          in - 20 \<le> jitter \<and> jitter < 20
           \<and> node_x n' = Some (width / 2 + (radius + jitter) * cos angle)
           \<and> node_y n' = Some (height / 2 + (radius + jitter) * sin angle)
           \<and> distance (width / 2 + radius * cos angle, height / 2 + radius * sin angle) (position n')
               = \<bar>jitter\<bar>
           \<and> \<bar>jitter\<bar> \<le> 20
           \<and> node_vx n' = Some 0 \<and> node_vy n' = Some 0)"
proof -
  let ?t = "2 * pi * real i / real (length ns)"
  let ?j = "40 * random i - 20"
  let ?R = "0.35 * min width height"
  have t: "real i / real (length ns) * 2 * pi = ?t"
    by simp
  have j: "- 20 \<le> ?j" "?j < 20" "\<bar>?j\<bar> \<le> 20"
    using assms(2,3) by simp_all
  have d: "distance (width / 2 + ?R * cos ?t, height / 2 + ?R * sin ?t)
             (width / 2 + (?R + ?j) * cos ?t, height / 2 + (?R + ?j) * sin ?t) = \<bar>?j\<bar>"
  proof -
    have "width / 2 + (?R + ?j) * cos ?t - (width / 2 + ?R * cos ?t) = ?j * cos ?t"
      "height / 2 + (?R + ?j) * sin ?t - (height / 2 + ?R * sin ?t) = ?j * sin ?t"
      by (simp_all add: algebra_simps)
    then show ?thesis
      unfolding distance_def fst_conv snd_conv by (simp only: sqrt_scaled_unit)
  qed
  have n: "initializedNodes width height random ns ! i =
     (ns ! i)\<lparr>node_x := Some (width / 2 + (?R + ?j) * cos ?t),
              node_y := Some (height / 2 + (?R + ?j) * sin ?t),
              node_vx := Some 0, node_vy := Some 0\<rparr>"
    unfolding initializedNodes_nth [OF assms(1)] t by (simp add: algebra_simps)
  show ?thesis
    unfolding Let_def n using j d by (simp add: position_def)
qed

theorem initializedNodes_on_circle_witness:
  "0 < length [example_node ''a'' 0 0]
   \<and> 0 \<le> constant_random 0.75 0 \<and> constant_random 0.75 0 < 1
   \<and> initializedNodes 800 600 (constant_random 0.75) [example_node ''a'' 0 0]
       = [example_node ''a'' 620 300]
   \<and> distance (400 + 210, 300) (620, 300) = 10"
proof -
  have len: "0 < length [example_node ''a'' 0 0]"
    by simp
  have lo: "0 \<le> constant_random 0.75 0" and hi: "constant_random 0.75 0 < 1"
    by (simp_all add: constant_random_def)
  have l1: "length (initializedNodes 800 600 (constant_random 0.75) [example_node ''a'' 0 0]) = 1"
    by simp
  from initializedNodes_on_circle [of 0 "[example_node ''a'' 0 0]" "constant_random 0.75" 800 600, OF len lo hi]
  have "initializedNodes 800 600 (constant_random 0.75) [example_node ''a'' 0 0] ! 0
      = example_node ''a'' 620 300"
    by (simp add: Let_def constant_random_def example_node_def initializedNodes_nth)
  with l1 have "initializedNodes 800 600 (constant_random 0.75) [example_node ''a'' 0 0]
      = [example_node ''a'' 620 300]"
    by (intro nth_equalityI) simp_all
  moreover have "distance (400 + 210, 300) (620, 300) = 10"
    by (simp add: distance_def sqrt_100)
  ultimately show ?thesis using len lo hi by simp
qed

text \<open>
  Claim C7 (as amended).  When the smaller side of the viewport is at least \<open>400 / 3\<close>
  (as for the default 800 by 600), every node lies within
  \<open>[0, width] \<times> [0, height]\<close> after initialization, whatever the jitter: the largest
  radius \<open>0.35 m + 20\<close> does not exceed \<open>m / 2\<close> for \<open>m = min(width, height)\<close>.
\<close>

theorem initializedNodes_in_viewport:
  assumes "400 / 3 \<le> min width height"
    and "i < length ns" and "0 \<le> random i" and "random i < 1"
  shows "in_viewport width height (initializedNodes width height random ns ! i)"
proof -
  define m where "m = min width height"
  let ?r = "m * 0.35 + (random i - 0.5) * 40"
  let ?t = "real i / real (length ns) * 2 * pi"
  have m: "400 / 3 \<le> m" "m \<le> width" "m \<le> height"
    using assms(1) by (simp_all add: m_def)
  have r: "\<bar>?r\<bar> \<le> m / 2"
    using m(1) assms(3,4) by (simp add: abs_le_iff)
  have "\<bar>cos ?t * ?r\<bar> \<le> 1 * \<bar>?r\<bar>"
    unfolding abs_mult by (rule mult_right_mono) simp_all
  with r have c: "\<bar>cos ?t * ?r\<bar> \<le> m / 2"
    by simp
  have "\<bar>sin ?t * ?r\<bar> \<le> 1 * \<bar>?r\<bar>"
    unfolding abs_mult by (rule mult_right_mono) simp_all
  with r have s: "\<bar>sin ?t * ?r\<bar> \<le> m / 2"
    by simp
  have "0 \<le> width / 2 + cos ?t * ?r" "width / 2 + cos ?t * ?r \<le> width"
    using c m(2) by (simp_all add: abs_le_iff)
  moreover have "0 \<le> height / 2 + sin ?t * ?r" "height / 2 + sin ?t * ?r \<le> height"
    using s m(3) by (simp_all add: abs_le_iff)
  ultimately show ?thesis
    unfolding initializedNodes_nth [OF assms(2)] by (simp add: in_viewport_def m_def)
qed

theorem initializedNodes_in_viewport_witness:
  "(400::real) / 3 \<le> min 800 600 \<and> 0 < length [example_node ''a'' 0 0]
   \<and> 0 \<le> constant_random 0.75 0 \<and> constant_random 0.75 0 < 1
   \<and> in_viewport 800 600 (initializedNodes 800 600 (constant_random 0.75) [example_node ''a'' 0 0] ! 0)"
proof -
  have vp: "(400::real) / 3 \<le> min 800 600"
    by simp
  have len: "0 < length [example_node ''a'' 0 0]"
    by simp
  have lo: "0 \<le> constant_random 0.75 0" and hi: "constant_random 0.75 0 < 1"
    by (simp_all add: constant_random_def)
  show ?thesis
    using vp len lo hi initializedNodes_in_viewport [of 800 600 0 "[example_node ''a'' 0 0]" "constant_random 0.75", OF vp len lo hi] by simp
qed

text \<open>
  For a smaller viewport the claim fails: in a viewport of 100 by 100 the radius is 35, a
  jitter of 16 puts the single node of a graph at \<open>x = 50 + 51 = 101 > 100\<close>.
\<close>

theorem initializedNodes_small_viewport_counterexample:
  "0 \<le> constant_random 0.9 0 \<and> constant_random 0.9 0 < 1
   \<and> map position (initializedNodes 100 100 (constant_random 0.9) [example_node ''a'' 0 0])
       = [(101, 50)]
   \<and> \<not> in_viewport 100 100 (initializedNodes 100 100 (constant_random 0.9) [example_node ''a'' 0 0] ! 0)"
  by (simp add: initializedNodes_def Let_def constant_random_def example_node_def position_def
      in_viewport_def enumerate_eq_zip)

section \<open>Properties of the rendering\<close>

lemma js_div_nonzero: "b \<noteq> 0 \<Longrightarrow> js_div a b = Number (a / b)"
  by (simp add: js_div_def)

lemma js_sub_Number [simp]: "js_sub (Number a) (Number b) = Number (a - b)"
  by (simp add: js_sub_def)

lemma distance_pos: "p \<noteq> q \<Longrightarrow> 0 < distance p q"
proof -
  assume "p \<noteq> q"
  then have "fst q - fst p \<noteq> 0 \<or> snd q - snd p \<noteq> 0"
    by (auto simp add: prod_eq_iff)
  then have "0 < (fst q - fst p) * (fst q - fst p) + (snd q - snd p) * (snd q - snd p)"
    by (simp only: sum_squares_gt_zero_iff)
  then show ?thesis
    by (simp add: distance_def)
qed

lemma direction_unit:
  assumes "p \<noteq> q"
  shows "(fst (direction p q))\<^sup>2 + (snd (direction p q))\<^sup>2 = 1"
proof -
  let ?dx = "fst q - fst p" and ?dy = "snd q - snd p"
  have pos: "0 < distance p q"
    using assms by (rule distance_pos)
  have sq: "(distance p q)\<^sup>2 = ?dx\<^sup>2 + ?dy\<^sup>2"
    by (simp add: distance_def power2_eq_square)
  have "(fst (direction p q))\<^sup>2 + (snd (direction p q))\<^sup>2 = (?dx\<^sup>2 + ?dy\<^sup>2) / (distance p q)\<^sup>2"
    by (simp add: direction_def power_divide add_divide_distrib)
  also have "\<dots> = 1"
    using pos by (simp add: sq [symmetric])
  finally show ?thesis .
qed

lemma distance_offset:
  assumes "(fst u)\<^sup>2 + (snd u)\<^sup>2 = 1"
  shows "distance p (vadd p (vscale c u)) = \<bar>c\<bar>"
proof -
  have "(c * fst u) * (c * fst u) + (c * snd u) * (c * snd u) = c\<^sup>2 * ((fst u)\<^sup>2 + (snd u)\<^sup>2)"
    by (simp add: power2_eq_square algebra_simps)
  then have "(c * fst u) * (c * fst u) + (c * snd u) * (c * snd u) = c\<^sup>2"
    by (simp only: assms mult_1_right)
  then show ?thesis
    by (simp add: distance_def vadd_def vscale_def)
qed

lemma getNodeSize_pos: "0 < getNodeSize n"
  by (simp add: getNodeSize_def)

text \<open>
  The renderer on a two-node graph with one edge: the line runs from 28 px right of the
  source centre to 28 px left of the destination centre.
\<close>

lemma render_edge_example:
  "render_edge [example_node ''a'' 100 300, example_node ''b'' 250 300] (example_edge ''a'' ''b'')
     = Some \<lparr>line_x1 = Number 128, line_y1 = Number 300, line_x2 = Number 222, line_y2 = Number 300,
             line_strokeWidth = 3, line_strokeDasharray = ''none'', label_text = Some ''relate...'',
             arrow_points = [(Number 222, Number 300), (Number 214, Number 297), (Number 214, Number 303)]\<rparr>"
  by (simp add: render_edge_def example_node_def example_edge_def js_div_def js_sub_def Let_def
      getNodeSize_def sqrt_22500)

text \<open>
  For every edge whose two ends resolve to nodes at the same position, the renderer divides
  \<open>0\<close> by \<open>0\<close> and emits a line whose four coordinates are \<open>NaN\<close>; only the label is left
  out, because its condition \<open>length > 80\<close> fails.
\<close>

lemma render_edge_coincident:
  assumes "find (\<lambda>n. node_id n = edge_from e) ns = Some f"
    and "find (\<lambda>n. node_id n = edge_to e) ns = Some t"
    and "present f" and "present t" and "position f = position t"
  shows "\<exists>r. render_edge ns e = Some r \<and> line_x1 r = NaN \<and> line_y1 r = NaN
           \<and> line_x2 r = NaN \<and> line_y2 r = NaN \<and> label_text r = None"
  using assms(3,4,5)
  by (simp add: render_edge_def assms(1,2) present_def position_def js_div_def js_sub_def Let_def
      split: option.splits)

text \<open>
  Claim C5.  The claim asks for a guard against a zero-length edge vector that omits the
  edge.  The renderer has none: for the self-loop on a node at \<open>(100, 300)\<close> it evaluates
  \<open>0 / 0\<close> and returns a line and an arrow head whose coordinates are all \<open>NaN\<close>; of
  the edge only the label is omitted.  (The repulsion loop of the tick does guard its
  division with \<open>distance > 0\<close>.)
\<close>

theorem render_edge_self_loop_not_guarded:
  "render_edge [example_node ''a'' 100 300] (example_edge ''a'' ''a'')
     = Some \<lparr>line_x1 = NaN, line_y1 = NaN, line_x2 = NaN, line_y2 = NaN,
             line_strokeWidth = 3, line_strokeDasharray = ''none'', label_text = None,
             arrow_points = [(NaN, NaN), (NaN, NaN), (NaN, NaN)]\<rparr>"
  by (simp add: render_edge_def example_node_def example_edge_def js_div_def js_sub_def Let_def)

theorem render_edge_self_loop_not_guarded_witness:
  "map_option (\<lambda>r. (line_x1 r, line_y1 r, line_x2 r, line_y2 r, label_text r))
     (render_edge [example_node ''a'' 100 300] (example_edge ''a'' ''a''))
     = Some (NaN, NaN, NaN, NaN, None)"
  using render_edge_self_loop_not_guarded by simp

text \<open>
  Claim C8.  For every edge whose ends resolve to two nodes with truthy, distinct
  positions, the edge is rendered, and its line starts at the source centre moved by the
  source radius along the unit vector \<open>u\<close> from the source centre to the destination
  centre and ends at the destination centre moved back by the destination radius along
  \<open>u\<close>: both end points lie exactly one radius from their centres.
\<close>

theorem render_edge_boundary_to_boundary:
  assumes "find (\<lambda>n. node_id n = edge_from e) ns = Some f"
    and "find (\<lambda>n. node_id n = edge_to e) ns = Some t"
    and "present f" and "present t" and "position f \<noteq> position t"
  shows "(let u = direction (position f) (position t);
              start = vadd (position f) (vscale (getNodeSize f) u);
              finish = vadd (position t) (vscale (- getNodeSize t) u)
          in (fst u)\<^sup>2 + (snd u)\<^sup>2 = 1
           \<and> distance (position f) start = getNodeSize f
           \<and> distance (position t) finish = getNodeSize t
           \<and> (\<exists>r. render_edge ns e = Some r
                 \<and> line_x1 r = Number (fst start) \<and> line_y1 r = Number (snd start)
                 \<and> line_x2 r = Number (fst finish) \<and> line_y2 r = Number (snd finish)))"
proof -
  let ?u = "direction (position f) (position t)"
  have unit: "(fst ?u)\<^sup>2 + (snd ?u)\<^sup>2 = 1"
    using assms(5) by (rule direction_unit)
  have d1: "distance (position f) (vadd (position f) (vscale (getNodeSize f) ?u)) = getNodeSize f"
    using getNodeSize_pos [of f] by (simp add: distance_offset [OF unit])
  have d2: "distance (position t) (vadd (position t) (vscale (- getNodeSize t) ?u)) = getNodeSize t"
    using getNodeSize_pos [of t] by (simp add: distance_offset [OF unit])
  have "0 < distance (position f) (position t)"
    using assms(5) by (rule distance_pos)
  then have len: "sqrt ((the (node_x t) - the (node_x f)) * (the (node_x t) - the (node_x f))
      + (the (node_y t) - the (node_y f)) * (the (node_y t) - the (node_y f))) \<noteq> 0"
    by (simp add: distance_def position_def sum_squares_gt_zero_iff)
  have "\<exists>r. render_edge ns e = Some r
      \<and> line_x1 r = Number (fst (vadd (position f) (vscale (getNodeSize f) ?u)))
      \<and> line_y1 r = Number (snd (vadd (position f) (vscale (getNodeSize f) ?u)))
      \<and> line_x2 r = Number (fst (vadd (position t) (vscale (- getNodeSize t) ?u)))
      \<and> line_y2 r = Number (snd (vadd (position t) (vscale (- getNodeSize t) ?u)))"
    using assms(3,4) len
    by (simp add: render_edge_def assms(1,2) present_def Let_def js_div_nonzero
        direction_def distance_def position_def vadd_def vscale_def mult.commute)
  with unit d1 d2 show ?thesis
    by (simp add: Let_def)
qed

theorem render_edge_boundary_to_boundary_witness:
  "find (\<lambda>n. node_id n = edge_from (example_edge ''a'' ''b''))
        [example_node ''a'' 100 300, example_node ''b'' 250 300] = Some (example_node ''a'' 100 300)
   \<and> find (\<lambda>n. node_id n = edge_to (example_edge ''a'' ''b''))
        [example_node ''a'' 100 300, example_node ''b'' 250 300] = Some (example_node ''b'' 250 300)
   \<and> present (example_node ''a'' 100 300) \<and> present (example_node ''b'' 250 300)
   \<and> position (example_node ''a'' 100 300) \<noteq> position (example_node ''b'' 250 300)
   \<and> map_option (\<lambda>r. (line_x1 r, line_y1 r, line_x2 r, line_y2 r))
        (render_edge [example_node ''a'' 100 300, example_node ''b'' 250 300] (example_edge ''a'' ''b''))
       = Some (Number 128, Number 300, Number 222, Number 300)"
proof -
  let ?a = "example_node ''a'' 100 300" and ?b = "example_node ''b'' 250 300"
  let ?e = "example_edge ''a'' ''b''"
  have f: "find (\<lambda>n. node_id n = edge_from ?e) [?a, ?b] = Some ?a"
    by (simp add: example_node_def example_edge_def)
  have t: "find (\<lambda>n. node_id n = edge_to ?e) [?a, ?b] = Some ?b"
    by (simp add: example_node_def example_edge_def)
  have pa: "present ?a" and pb: "present ?b"
    by (simp_all add: example_node_def present_def)
  have ne: "position ?a \<noteq> position ?b"
    by (simp add: example_node_def position_def)
  have pos: "position ?a = (100, 300)" "position ?b = (250, 300)"
    by (simp_all add: example_node_def position_def)
  have size: "getNodeSize ?a = 28" "getNodeSize ?b = 28"
    by (simp_all add: example_node_def getNodeSize_def)
  have dir: "direction (100, 300) (250, 300) = (1, 0)"
    by (simp add: direction_def distance_def sqrt_22500)
  from render_edge_boundary_to_boundary [OF f t pa pb ne]
  have "map_option (\<lambda>r. (line_x1 r, line_y1 r, line_x2 r, line_y2 r)) (render_edge [?a, ?b] ?e)
      = Some (Number 128, Number 300, Number 222, Number 300)"
    unfolding pos size dir by (auto simp add: Let_def vadd_def vscale_def)
  with f t pa pb ne show ?thesis by simp
qed

text \<open>
  Claim C9.  The scene has one entry for each edge and each node.  The entry of an edge
  whose \<open>from\<close> or \<open>to\<close> identifier belongs to no node is empty, and so is the entry of a
  node whose \<open>x\<close> or \<open>y\<close> is undefined.  The renderer has no failing path: \<open>render\<close> is a
  total function and \<open>None\<close> stands for \<^verbatim>\<open>return null\<close>.
\<close>

theorem render_skips_unknown_and_unplaced:
  "length (fst (render s)) = length (edges s) \<and> length (snd (render s)) = length (nodes s)
   \<and> (\<forall>k < length (edges s).
         edge_from (edges s ! k) \<notin> set (map node_id (nodes s))
           \<or> edge_to (edges s ! k) \<notin> set (map node_id (nodes s))
         \<longrightarrow> fst (render s) ! k = None)
   \<and> (\<forall>k < length (nodes s).
         node_x (nodes s ! k) = None \<or> node_y (nodes s ! k) = None
         \<longrightarrow> snd (render s) ! k = None)"
proof -
  have unknown: "find (\<lambda>n. node_id n = a) ns = None" if "a \<notin> set (map node_id ns)" for a ns
    using that by (auto simp add: find_None_iff)
  have e: "render_edge ns e = None"
    if "edge_from e \<notin> set (map node_id ns) \<or> edge_to e \<notin> set (map node_id ns)" for ns e
    using that by (auto simp add: render_edge_def unknown split: option.splits)
  have n: "render_node sel n = None" if "node_x n = None \<or> node_y n = None" for sel n
    using that by (auto simp add: render_node_def)
  show ?thesis
    by (simp add: render_def e n)
qed

theorem render_skips_unknown_and_unplaced_witness:
  "0 < length (edges (example_state [example_node ''a'' 100 300, (example_node ''b'' 0 0)\<lparr>node_x := None\<rparr>]
                        [example_edge ''a'' ''zz'']))
   \<and> edge_to (example_edge ''a'' ''zz'')
        \<notin> set (map node_id [example_node ''a'' 100 300, (example_node ''b'' 0 0)\<lparr>node_x := None\<rparr>])
   \<and> node_x ((example_node ''b'' 0 0)\<lparr>node_x := None\<rparr>) = None
   \<and> fst (render (example_state [example_node ''a'' 100 300, (example_node ''b'' 0 0)\<lparr>node_x := None\<rparr>]
                     [example_edge ''a'' ''zz''])) = [None]
   \<and> snd (render (example_state [example_node ''a'' 100 300, (example_node ''b'' 0 0)\<lparr>node_x := None\<rparr>]
                     [example_edge ''a'' ''zz''])) ! 1 = None"
proof -
  let ?ns = "[example_node ''a'' 100 300, (example_node ''b'' 0 0)\<lparr>node_x := None\<rparr>]"
  let ?s = "example_state ?ns [example_edge ''a'' ''zz'']"
  have hyp: "0 < length (edges ?s)" "edge_to (example_edge ''a'' ''zz'') \<notin> set (map node_id ?ns)"
    "node_x ((example_node ''b'' 0 0)\<lparr>node_x := None\<rparr>) = None"
    by (simp_all add: example_state_def example_edge_def example_node_def)
  have st: "edges ?s = [example_edge ''a'' ''zz'']" "nodes ?s = ?ns"
    by (simp_all add: example_state_def)
  from render_skips_unknown_and_unplaced [of ?s]
  have "fst (render ?s) = [None] \<and> snd (render ?s) ! 1 = None"
    unfolding st using hyp(2,3) by (auto simp add: length_Suc_conv)
  with hyp show ?thesis by simp
qed

section \<open>A zero coordinate counts as a missing position\<close>

lemma present_imp_forget [simp]: "present n \<Longrightarrow> forget n = n"
  by (simp add: forget_def)

lemma forget_fields [simp]:
  "node_id (forget n) = node_id n" "node_vx (forget n) = node_vx n" "node_vy (forget n) = node_vy n"
  "node_size (forget n) = node_size n" "node_type (forget n) = node_type n"
  "node_label (forget n) = node_label n"
  by (simp_all add: forget_def)

lemma present_forget [simp]: "present (forget n) = present n"
  by (simp add: forget_def present_def)

lemma find_map_forget:
  "find (\<lambda>n. node_id n = a) (map forget ns) = map_option forget (find (\<lambda>n. node_id n = a) ns)"
  by (induction ns) simp_all

lemma spec_repulsion_forget: "spec_repulsion node (forget other) = spec_repulsion node other"
  by (cases "present other") (simp_all add: spec_repulsion_def)

lemma spec_attraction_forget:
  "spec_attraction (map forget ns) node e = spec_attraction ns node e"
proof -
  have "(case map_option forget c of None \<Rightarrow> (0, 0)
         | Some c \<Rightarrow> if present c \<and> distance (position node) (position c) > 100
                     then vscale 0.1 (direction (position node) (position c)) else (0, 0))
      = (case c of None \<Rightarrow> (0, 0)
         | Some c \<Rightarrow> if present c \<and> distance (position node) (position c) > 100
                     then vscale 0.1 (direction (position node) (position c)) else (0, 0))" for c
    by (cases c) auto
  then show ?thesis
    by (simp add: spec_attraction_def find_map_forget)
qed

lemma spec_net_force_forget:
  assumes "i < length ns" and "present (ns ! i)"
  shows "spec_net_force w h es (map forget ns) i = spec_net_force w h es ns i"
proof -
  have same: "map forget ns ! i = ns ! i"
    using assms by simp
  have rep: "map (\<lambda>j. spec_repulsion (ns ! i) (map forget ns ! j)) (filter (\<lambda>j. j \<noteq> i) [0..<length ns])
      = map (\<lambda>j. spec_repulsion (ns ! i) (ns ! j)) (filter (\<lambda>j. j \<noteq> i) [0..<length ns])"
    by (rule map_cong) (simp_all add: spec_repulsion_forget)
  show ?thesis
    unfolding spec_net_force_def length_map same rep spec_attraction_forget ..
qed

lemma simulate_node_forget:
  assumes "i < length ns"
  shows "simulate_node w h es (map forget ns) i = map forget (simulate_node w h es ns i)"
proof (cases "present (ns ! i)")
  case False
  then have "\<not> present (map forget ns ! i)"
    using assms by simp
  with False show ?thesis
    by (simp add: simulate_node_def present_def Let_def)
next
  case True
  then have p: "present (map forget ns ! i)" and same: "map forget ns ! i = ns ! i"
    using assms by simp_all
  let ?F = "spec_net_force w h es ns i"
  let ?vx = "0.8 * or0 (node_vx (ns ! i)) + 0.1 * fst ?F"
  let ?vy = "0.8 * or0 (node_vy (ns ! i)) + 0.1 * snd ?F"
  let ?new = "(ns ! i)\<lparr>node_x := Some (max 50 (min (w - 50) (fst (position (ns ! i)) + ?vx))),
                        node_y := Some (max 50 (min (h - 50) (snd (position (ns ! i)) + ?vy))),
                        node_vx := Some ?vx, node_vy := Some ?vy\<rparr>"
  have "max 50 a \<noteq> 0" for a :: real
    by (simp add: max_def)
  then have "present ?new"
    by (simp add: present_def)
  then have new: "forget ?new = ?new"
    by simp
  have "simulate_node w h es (map forget ns) i = (map forget ns)[i := ?new]"
    by (simp add: simulate_node_present [OF p] same spec_net_force_forget [OF assms True] Let_def)
  also have "\<dots> = map forget (ns[i := ?new])"
    by (simp only: map_update new)
  also have "\<dots> = map forget (simulate_node w h es ns i)"
    by (simp add: simulate_node_present [OF True] Let_def)
  finally show ?thesis .
qed

lemma simulate_upto_forget:
  "n \<le> length ns \<Longrightarrow> simulate_upto w h es (map forget ns) n = map forget (simulate_upto w h es ns n)"
  by (induction n) (simp_all add: simulate_node_forget)

lemma simulate_nodes_forget:
  "simulate_nodes w h es (map forget ns) = map forget (simulate_nodes w h es ns)"
  by (simp add: simulate_nodes_upto simulate_upto_forget)

lemma simulate_node_absent: "\<not> present (ns ! i) \<Longrightarrow> simulate_node w h es ns i = ns"
  by (simp add: simulate_node_def present_def Let_def)

lemma simulate_nodes_nth_absent:
  assumes "i < length ns" and "\<not> present (ns ! i)"
  shows "simulate_nodes w h es ns ! i = ns ! i"
proof -
  have "simulate_upto w h es ns i ! i = ns ! i"
    by (simp add: simulate_upto_nth_ge)
  with assms show ?thesis
    by (simp add: simulate_nodes_upto simulate_upto_nth_lt simulate_node_absent)
qed

lemma repulsion_absent: "\<not> present other \<Longrightarrow> repulsion node other f = f"
  by (simp add: repulsion_def present_def)

lemma render_node_absent: "\<not> present n \<Longrightarrow> render_node sel n = None"
  by (simp add: render_node_def present_def)

lemma render_node_forget: "render_node sel (forget n) = render_node sel n"
  by (cases "present n") (simp_all add: render_node_absent)

lemma render_edge_absent_end:
  assumes "find (\<lambda>n. node_id n = edge_from e) ns = Some n \<or> find (\<lambda>n. node_id n = edge_to e) ns = Some n"
    and "\<not> present n"
  shows "render_edge ns e = None"
  using assms by (auto simp add: render_edge_def present_def split: option.splits)

lemma render_edge_absent_found:
  assumes "find (\<lambda>n. node_id n = edge_from e) ns = Some f"
    and "find (\<lambda>n. node_id n = edge_to e) ns = Some t"
    and "\<not> (present f \<and> present t)"
  shows "render_edge ns e = None"
  using assms by (auto simp add: render_edge_def present_def)

lemma render_edge_forget: "render_edge (map forget ns) e = render_edge ns e"
proof (cases "find (\<lambda>n. node_id n = edge_from e) ns")
  case None
  then show ?thesis by (simp add: render_edge_def find_map_forget)
next
  case f: (Some f)
  show ?thesis
  proof (cases "find (\<lambda>n. node_id n = edge_to e) ns")
    case None
    then show ?thesis by (simp add: render_edge_def find_map_forget f)
  next
    case t: (Some t)
    show ?thesis
    proof (cases "present f \<and> present t")
      case True
      then show ?thesis by (simp add: render_edge_def find_map_forget f t)
    next
      case False
      have "render_edge ns e = None"
        using f t False by (rule render_edge_absent_found)
      moreover have "render_edge (map forget ns) e = None"
      proof (rule render_edge_absent_found)
        show "find (\<lambda>n. node_id n = edge_from e) (map forget ns) = Some (forget f)"
          by (simp add: find_map_forget f)
        show "find (\<lambda>n. node_id n = edge_to e) (map forget ns) = Some (forget t)"
          by (simp add: find_map_forget t)
        show "\<not> (present (forget f) \<and> present (forget t))"
          using False by simp
      qed
      ultimately show ?thesis by simp
    qed
  qed
qed

lemma find_distinct_id:
  "distinct (map node_id ns) \<Longrightarrow> n \<in> set ns \<Longrightarrow> find (\<lambda>m. node_id m = node_id n) ns = Some n"
  by (induction ns) (auto simp add: rev_image_eqI)

lemma render_forget: "render (s\<lparr>nodes := map forget (nodes s)\<rparr>) = render s"
  by (simp add: render_def render_edge_forget render_node_forget)

text \<open>
  Claim C10.  A node with \<open>x = 0\<close> or \<open>y = 0\<close> is handled as a node without position.
  The tick leaves it as it is, it adds nothing to the repulsion on any other node, and the
  tick and the renderer give the same result when the position of every such node is
  erased beforehand (\<open>forget\<close>).  The node is not rendered, and neither is any edge one
  of whose ends resolves to it; with unique identifiers, as the data model requires, these
  are all the edges that name it.
\<close>

theorem zero_coordinate_treated_as_missing:
  assumes "k < length (nodes s)"
    and "node_x (nodes s ! k) = Some 0 \<or> node_y (nodes s ! k) = Some 0"
  shows "forget (nodes s ! k) = (nodes s ! k)\<lparr>node_x := None, node_y := None\<rparr>
     \<and> nodes (simulate width height data s) ! k = nodes s ! k
     \<and> repulsion other (nodes s ! k) f = f
     \<and> nodes (simulate width height data (s\<lparr>nodes := map forget (nodes s)\<rparr>))
         = map forget (nodes (simulate width height data s))
     \<and> render (s\<lparr>nodes := map forget (nodes s)\<rparr>) = render s
     \<and> snd (render s) ! k = None
     \<and> (\<forall>j < length (edges s).
           find (\<lambda>n. node_id n = edge_from (edges s ! j)) (nodes s) = Some (nodes s ! k)
             \<or> find (\<lambda>n. node_id n = edge_to (edges s ! j)) (nodes s) = Some (nodes s ! k)
           \<longrightarrow> fst (render s) ! j = None)
     \<and> (distinct (map node_id (nodes s)) \<longrightarrow>
          (\<forall>j < length (edges s).
             edge_from (edges s ! j) = node_id (nodes s ! k) \<or> edge_to (edges s ! j) = node_id (nodes s ! k)
             \<longrightarrow> fst (render s) ! j = None))"
proof -
  let ?n = "nodes s ! k"
  have absent: "\<not> present ?n"
    using assms(2) by (auto simp add: present_def)
  have mem: "?n \<in> set (nodes s)"
    using assms(1) by simp
  have edge: "render_edge (nodes s) e = None"
    if "distinct (map node_id (nodes s))" and "edge_from e = node_id ?n \<or> edge_to e = node_id ?n" for e
  proof (rule render_edge_absent_end [OF _ absent])
    show "find (\<lambda>n. node_id n = edge_from e) (nodes s) = Some ?n
        \<or> find (\<lambda>n. node_id n = edge_to e) (nodes s) = Some ?n"
      using that(2) find_distinct_id [OF that(1) mem] by auto
  qed
  have "forget ?n = ?n\<lparr>node_x := None, node_y := None\<rparr>"
    using absent by (simp add: forget_def)
  moreover have "nodes (simulate width height data s) ! k = ?n"
    using assms(1) absent by (simp add: simulate_def simulate_nodes_nth_absent)
  moreover have "repulsion other ?n f = f"
    using absent by (rule repulsion_absent)
  moreover have "nodes (simulate width height data (s\<lparr>nodes := map forget (nodes s)\<rparr>))
      = map forget (nodes (simulate width height data s))"
    by (simp add: simulate_def simulate_nodes_forget)
  moreover have "render (s\<lparr>nodes := map forget (nodes s)\<rparr>) = render s"
    by (rule render_forget)
  moreover have "snd (render s) ! k = None"
    using assms(1) absent by (simp add: render_def render_node_absent)
  moreover have "\<forall>j < length (edges s).
           find (\<lambda>n. node_id n = edge_from (edges s ! j)) (nodes s) = Some ?n
             \<or> find (\<lambda>n. node_id n = edge_to (edges s ! j)) (nodes s) = Some ?n
           \<longrightarrow> fst (render s) ! j = None"
    using absent by (simp add: render_def render_edge_absent_end)
  moreover have "distinct (map node_id (nodes s)) \<longrightarrow>
          (\<forall>j < length (edges s).
             edge_from (edges s ! j) = node_id ?n \<or> edge_to (edges s ! j) = node_id ?n
             \<longrightarrow> fst (render s) ! j = None)"
    by (simp add: render_def edge)
  ultimately show ?thesis by blast
qed

theorem zero_coordinate_treated_as_missing_witness:
  "0 < length (nodes (example_state [example_node ''z'' 0 300, example_node ''a'' 100 300]
                        [example_edge ''a'' ''z'']))
   \<and> node_x (nodes (example_state [example_node ''z'' 0 300, example_node ''a'' 100 300]
                        [example_edge ''a'' ''z'']) ! 0) = Some 0
   \<and> nodes (simulate 800 600
              (example_data [example_node ''z'' 0 300, example_node ''a'' 100 300] [example_edge ''a'' ''z''])
              (example_state [example_node ''z'' 0 300, example_node ''a'' 100 300] [example_edge ''a'' ''z''])) ! 0
       = example_node ''z'' 0 300
   \<and> snd (render (example_state [example_node ''z'' 0 300, example_node ''a'' 100 300]
                     [example_edge ''a'' ''z''])) ! 0 = None
   \<and> fst (render (example_state [example_node ''z'' 0 300, example_node ''a'' 100 300]
                     [example_edge ''a'' ''z''])) ! 0 = None"
proof -
  let ?ns = "[example_node ''z'' 0 300, example_node ''a'' 100 300]"
  let ?s = "example_state ?ns [example_edge ''a'' ''z'']"
  have len: "0 < length (nodes ?s)"
    by (simp add: example_state_def)
  have zero: "node_x (nodes ?s ! 0) = Some 0 \<or> node_y (nodes ?s ! 0) = Some 0"
    by (simp add: example_state_def example_node_def)
  have st: "nodes ?s ! 0 = example_node ''z'' 0 300" "node_x (example_node ''z'' 0 300) = Some 0"
    "distinct (map node_id (nodes ?s))" "0 < length (edges ?s)"
    "edge_to (edges ?s ! 0) = node_id (example_node ''z'' 0 300)"
    by (simp_all add: example_state_def example_node_def example_edge_def)
  from zero_coordinate_treated_as_missing [OF len zero, of 800 600 "example_data ?ns [example_edge ''a'' ''z'']"]
  show ?thesis
    using len st by auto
qed

end
